theory Spec2Isabelle
  imports Main "HOL-Library.Word" "HOL-Library.Sublist"
begin

section \<open>The image inspection sample: values, messages and the outside world\<close>

text \<open>
  The sample \<^verbatim>\<open>dlp/snippets/Inspect/inspect_image_listed_infotypes.py\<close> builds one
  inspection request from its arguments and an image file, sends it with the client's
  \<^verbatim>\<open>inspect_content\<close>, and prints the findings of the response.

  Python is dynamically typed and the command line hands the function values that its
  annotations do not mention (\<^verbatim>\<open>None\<close> for an option that was not given, a
  string for \<^verbatim>\<open>--include_quote\<close>), so the scalar arguments are values of
  \<open>pyval\<close>.
\<close>

datatype pyval = PNone | PBool bool | PStr string

text \<open>The text an f-string puts in place of \<^verbatim>\<open>{v}\<close>.\<close>

fun py_str :: "pyval \<Rightarrow> string" where
  "py_str PNone = ''None''"
| "py_str (PBool b) = (if b then ''True'' else ''False'')"
| "py_str (PStr s) = s"

text \<open>The truth value \<^verbatim>\<open>if v:\<close> tests.\<close>

fun truthy :: "pyval \<Rightarrow> bool" where
  "truthy PNone = False"
| "truthy (PBool b) = b"
| "truthy (PStr s) = (s \<noteq> [])"

type_synonym bytes = "8 word list"

text \<open>The request dictionary, one record per nested dictionary.\<close>

record InfoType =
  name :: string

record InspectConfig =
  info_types :: "InfoType list"
  include_quote :: pyval

record ByteContentItem =
  type_ :: string
  data :: bytes

record ContentItem =
  byte_item :: ByteContentItem

record InspectContentRequest =
  parent :: string
  inspect_config :: InspectConfig
  item :: ContentItem

text \<open>
  The response, as far as the sample reads it: \<^verbatim>\<open>response.result.findings\<close>, and
  of each finding \<^verbatim>\<open>info_type.name\<close>, \<^verbatim>\<open>quote\<close> and
  \<^verbatim>\<open>likelihood\<close>. A quote the service did not send reads as the empty string.
  \<open>likelihood\<close> holds the text that the f-string formats the finding's likelihood to.
\<close>

record Finding =
  info_type :: InfoType
  quote :: string
  likelihood :: string

record InspectResult =
  findings :: "Finding list"

record InspectContentResponse =
  result :: InspectResult

text \<open>
  What a run can end with besides returning: whatever the constructor of the client
  raises, the \<^verbatim>\<open>TypeError\<close> of iterating \<^verbatim>\<open>None\<close>, the
  \<^verbatim>\<open>OSError\<close> of \<^verbatim>\<open>open\<close> or \<^verbatim>\<open>read\<close>, whatever
  \<^verbatim>\<open>inspect_content\<close> raises, and the exit of the argument parser after its
  usage message.
\<close>

datatype error =
  ClientError string | TypeError | OSError | RemoteCallError string | UsageError

text \<open>
  The world outside the program: the error that the constructor of line 45 raises, if
  it raises (without credentials, say), what opening and reading a path gives
  (\<open>None\<close> when either raises), and what the constructed client answers to a request
  (\<open>Inl\<close> when it raises).
\<close>

record env =
  client_error :: "string option"
  read_file :: "string \<Rightarrow> bytes option"
  inspect_content :: "InspectContentRequest \<Rightarrow> string + InspectContentResponse"

text \<open>What a run does to the world, in the order it does it.\<close>

datatype event =
    OpenRead string
  | Call InspectContentRequest
  | Print string

section \<open>The presenter (lines 74 to 81)\<close>

text \<open>The body of the loop: two or three \<^verbatim>\<open>print\<close> calls for one finding.\<close>

definition print_finding :: "pyval \<Rightarrow> Finding \<Rightarrow> event list" where
  "print_finding incl_quote finding =
     [Print (''Info type: '' @ name (info_type finding))]
     @ (if truthy incl_quote then [Print (''Quote: '' @ quote finding)] else [])
     @ [Print (''Likelihood: '' @ likelihood finding @ '' \<newline>'')]"

fun print_findings :: "pyval \<Rightarrow> Finding list \<Rightarrow> event list" where
  "print_findings incl_quote [] = []"
| "print_findings incl_quote (finding # rest) =
     print_finding incl_quote finding @ print_findings incl_quote rest"

definition present :: "pyval \<Rightarrow> InspectContentResponse \<Rightarrow> event list" where
  "present incl_quote response =
     (if findings (result response) \<noteq> []
      then print_findings incl_quote (findings (result response))
      else [Print ''No findings.''])"

section \<open>The function (lines 27 to 81)\<close>

text \<open>
  A run gives the events it caused and the error it ended with, if any. The client is
  constructed first (line 45). \<open>infotypes = None\<close> is Python's \<^verbatim>\<open>None\<close>,
  which the list comprehension of line 49 cannot iterate.
\<close>

definition inspect_image_file_listed_infotypes ::
  "env \<Rightarrow> pyval \<Rightarrow> string \<Rightarrow> string list option \<Rightarrow> pyval \<Rightarrow> event list \<times> error option" where
  "inspect_image_file_listed_infotypes world project filename infotypes incl_quote =
     (case client_error world of
        Some e \<Rightarrow> ([], Some (ClientError e))
      | None \<Rightarrow>
     (case infotypes of
        None \<Rightarrow> ([], Some TypeError)
      | Some labels \<Rightarrow>
          let its = map (\<lambda>s. \<lparr>name = s\<rparr>) labels;
              config = \<lparr>info_types = its, include_quote = incl_quote\<rparr>
          in (case read_file world filename of
                None \<Rightarrow> ([OpenRead filename], Some OSError)
              | Some content \<Rightarrow>
                  let bitem = \<lparr>type_ = ''IMAGE'', data = content\<rparr>;
                      par = ''projects/'' @ py_str project;
                      request = \<lparr>parent = par, inspect_config = config,
                                 item = \<lparr>byte_item = bitem\<rparr>\<rparr>
                  in (case inspect_content world request of
                        Inl e \<Rightarrow> ([OpenRead filename, Call request], Some (RemoteCallError e))
                      | Inr response \<Rightarrow>
                          ([OpenRead filename, Call request] @ present incl_quote response,
                           None)))))"

section \<open>The command line (lines 87 to 116)\<close>

text \<open>
  The command line as the parser groups it: the value of \<^verbatim>\<open>--project\<close> if the
  option was given, the positional words, the values of \<^verbatim>\<open>--info_types\<close> if the
  option was given, and the value of \<^verbatim>\<open>--include_quote\<close> if it was given.
\<close>

record cmdline =
  opt_project :: "string option"
  positionals :: "string list"
  opt_info_types :: "string list option"
  opt_include_quote :: "string option"

record Args =
  arg_project :: pyval
  arg_filename :: string
  arg_info_types :: "string list option"
  arg_include_quote :: pyval

text \<open>
  \<^verbatim>\<open>parse_args\<close> for the four \<^verbatim>\<open>add_argument\<close> calls: the positional
  \<^verbatim>\<open>filename\<close> is required and takes one word, \<^verbatim>\<open>nargs="+"\<close> wants at
  least one value, an option that is absent gets its default (\<^verbatim>\<open>None\<close>, or
  \<^verbatim>\<open>True\<close> for \<^verbatim>\<open>--include_quote\<close>), and every value given is a string.
\<close>

definition parse_args :: "cmdline \<Rightarrow> error + Args" where
  "parse_args cl =
     (case positionals cl of
        [fname] \<Rightarrow>
          (if opt_info_types cl = Some [] then Inl UsageError
           else Inr \<lparr>arg_project = (case opt_project cl of None \<Rightarrow> PNone | Some p \<Rightarrow> PStr p),
                     arg_filename = fname,
                     arg_info_types = opt_info_types cl,
                     arg_include_quote =
                       (case opt_include_quote cl of None \<Rightarrow> PBool True | Some q \<Rightarrow> PStr q)\<rparr>)
      | _ \<Rightarrow> Inl UsageError)"

definition main :: "env \<Rightarrow> cmdline \<Rightarrow> event list \<times> error option" where
  "main world cl =
     (case parse_args cl of
        Inl e \<Rightarrow> ([], Some e)
      | Inr args \<Rightarrow>
          inspect_image_file_listed_infotypes world (arg_project args) (arg_filename args)
            (arg_info_types args) (arg_include_quote args))"

section \<open>Observations of a run\<close>

text \<open>The requests sent, and the text on standard output: each \<^verbatim>\<open>print\<close> writes
  its argument and a line feed.\<close>

fun calls_of :: "event list \<Rightarrow> InspectContentRequest list" where
  "calls_of [] = []"
| "calls_of (Call r # es) = r # calls_of es"
| "calls_of (_ # es) = calls_of es"

fun printed :: "event list \<Rightarrow> string list" where
  "printed [] = []"
| "printed (Print s # es) = s # printed es"
| "printed (_ # es) = printed es"

fun opened :: "event list \<Rightarrow> string list" where
  "opened [] = []"
| "opened (OpenRead f # es) = f # opened es"
| "opened (_ # es) = opened es"

definition stdout_of :: "event list \<Rightarrow> string" where
  "stdout_of es = concat (map (\<lambda>s. s @ ''\<newline>'') (printed es))"

text \<open>The lines of a text: the pieces its line feeds end, and what follows the last one
  if that is not empty.\<close>

fun lines_from :: "string \<Rightarrow> string \<Rightarrow> string list" where
  "lines_from cur [] = (if cur = [] then [] else [cur])"
| "lines_from cur (c # cs) =
     (if c = CHR ''\<newline>'' then cur # lines_from [] cs else lines_from (cur @ [c]) cs)"

definition lines_of :: "string \<Rightarrow> string list" where
  "lines_of text = lines_from [] text"

section \<open>Lines of the output\<close>

text \<open>
  The lines one finding contributes to the output when none of its printed fields holds
  a line feed: the \<open>Info type\<close> line, the \<open>Quote\<close> line if quotes are on, the
  \<open>Likelihood\<close> line, which ends in the space the format string has before its
  line feed, and the empty line that this line feed makes.
\<close>

definition finding_lines :: "pyval \<Rightarrow> Finding \<Rightarrow> string list" where
  "finding_lines incl_quote finding =
     [''Info type: '' @ name (info_type finding)]
     @ (if truthy incl_quote then [''Quote: '' @ quote finding] else [])
     @ [''Likelihood: '' @ likelihood finding @ '' '', []]"

definition no_line_feed :: "string \<Rightarrow> bool" where
  "no_line_feed s = (CHR ''\<newline>'' \<notin> set s)"

definition single_line_fields :: "pyval \<Rightarrow> Finding \<Rightarrow> bool" where
  "single_line_fields incl_quote finding =
     (no_line_feed (name (info_type finding)) \<and> no_line_feed (likelihood finding)
      \<and> (truthy incl_quote \<longrightarrow> no_line_feed (quote finding)))"

section \<open>Test doubles\<close>

text \<open>A world in which the client is constructed, every path reads as the same content
  (or fails to read) and the client gives the same answer to every request; the answer
  that carries a given list of findings.\<close>

definition stub_world :: "bytes option \<Rightarrow> string + InspectContentResponse \<Rightarrow> env" where
  "stub_world content answer =
     \<lparr>client_error = None, read_file = (\<lambda>_. content), inspect_content = (\<lambda>_. answer)\<rparr>"

definition answer_with :: "Finding list \<Rightarrow> string + InspectContentResponse" where
  "answer_with fs = Inr \<lparr>result = \<lparr>findings = fs\<rparr>\<rparr>"

section \<open>Events of a run\<close>

lemma printed_append: "printed (xs @ ys) = printed xs @ printed ys"
  by (induction xs rule: printed.induct) simp_all

lemma calls_of_append: "calls_of (xs @ ys) = calls_of xs @ calls_of ys"
  by (induction xs rule: calls_of.induct) simp_all

lemma stdout_of_append: "stdout_of (xs @ ys) = stdout_of xs @ stdout_of ys"
  by (simp add: stdout_of_def printed_append)

text \<open>The presenter only prints.\<close>

lemma calls_of_print_findings: "calls_of (print_findings iq fs) = []"
  by (induction fs) (simp_all add: print_finding_def calls_of_append)

lemma calls_of_present: "calls_of (present iq response) = []"
  by (simp add: present_def calls_of_print_findings)

lemma Call_in_calls_of: "Call r \<in> set es \<longleftrightarrow> r \<in> set (calls_of es)"
  by (induction es rule: calls_of.induct) auto

lemma Call_notin_present: "Call r \<notin> set (present iq response)"
  by (simp add: Call_in_calls_of calls_of_present)

text \<open>A run that sent a request opened the file before, sent nothing else, and went on
  as the client's answer to that request says.\<close>

lemma run_with_call:
  assumes "Call request \<in>
    set (fst (inspect_image_file_listed_infotypes world project filename infotypes iq))"
  shows "inspect_image_file_listed_infotypes world project filename infotypes iq =
     (case inspect_content world request of
        Inl e \<Rightarrow> ([OpenRead filename, Call request], Some (RemoteCallError e))
      | Inr response \<Rightarrow> ([OpenRead filename, Call request] @ present iq response, None))"
  using assms
  by (auto simp: inspect_image_file_listed_infotypes_def Let_def Call_notin_present
           split: option.splits sum.splits)

section \<open>Splitting the output into lines\<close>

lemma lines_from_line:
  "no_line_feed s \<Longrightarrow> lines_from cur (s @ CHR ''\<newline>'' # rest) = (cur @ s) # lines_from [] rest"
  by (induction s arbitrary: cur) (auto simp: no_line_feed_def)

lemma stdout_of_Nil: "stdout_of [] = []"
  by (simp add: stdout_of_def)

lemma stdout_of_print_finding:
  "stdout_of (print_finding iq f) =
     (''Info type: '' @ name (info_type f)) @ CHR ''\<newline>'' #
     (if truthy iq then (''Quote: '' @ quote f) @ [CHR ''\<newline>''] else []) @
     (''Likelihood: '' @ likelihood f @ '' '') @ CHR ''\<newline>'' # [] @ CHR ''\<newline>'' # []"
  by (simp add: print_finding_def stdout_of_def)

lemma lines_from_print_finding:
  assumes "single_line_fields iq f"
  shows "lines_from [] (stdout_of (print_finding iq f) @ rest) = finding_lines iq f @ lines_from [] rest"
proof -
  have n: "no_line_feed (''Info type: '' @ name (info_type f))"
    using assms by (simp add: single_line_fields_def no_line_feed_def)
  have l: "no_line_feed (''Likelihood: '' @ likelihood f @ '' '')"
    using assms by (simp add: single_line_fields_def no_line_feed_def)
  have e: "no_line_feed []" by (simp add: no_line_feed_def)
  show ?thesis
  proof (cases "truthy iq")
    case True
    then have q: "no_line_feed (''Quote: '' @ quote f)"
      using assms by (simp add: single_line_fields_def no_line_feed_def)
    have "stdout_of (print_finding iq f) @ rest =
        (''Info type: '' @ name (info_type f)) @ CHR ''\<newline>'' #
        ((''Quote: '' @ quote f) @ CHR ''\<newline>'' #
        ((''Likelihood: '' @ likelihood f @ '' '') @ CHR ''\<newline>'' # ([] @ CHR ''\<newline>'' # rest)))"
      using True by (simp add: stdout_of_print_finding)
    then show ?thesis
      using True
      by (simp only: lines_from_line[OF n] lines_from_line[OF q] lines_from_line[OF l]
            lines_from_line[OF e] finding_lines_def) simp
  next
    case False
    have "stdout_of (print_finding iq f) @ rest =
        (''Info type: '' @ name (info_type f)) @ CHR ''\<newline>'' #
        ((''Likelihood: '' @ likelihood f @ '' '') @ CHR ''\<newline>'' # ([] @ CHR ''\<newline>'' # rest))"
      using False by (simp add: stdout_of_print_finding)
    then show ?thesis
      using False
      by (simp only: lines_from_line[OF n] lines_from_line[OF l]
            lines_from_line[OF e] finding_lines_def) simp
  qed
qed

lemma lines_from_print_findings:
  "\<forall>f\<in>set fs. single_line_fields iq f \<Longrightarrow>
   lines_from [] (stdout_of (print_findings iq fs) @ rest) =
     concat (map (finding_lines iq) fs) @ lines_from [] rest"
proof (induction fs)
  case Nil
  show ?case by (simp add: stdout_of_Nil)
next
  case (Cons f fs)
  have "lines_from [] (stdout_of (print_findings iq (f # fs)) @ rest) =
        lines_from [] (stdout_of (print_finding iq f) @ (stdout_of (print_findings iq fs) @ rest))"
    by (simp add: stdout_of_append)
  also have "\<dots> = finding_lines iq f @ lines_from [] (stdout_of (print_findings iq fs) @ rest)"
    using Cons.prems by (simp add: lines_from_print_finding)
  also have "\<dots> = concat (map (finding_lines iq) (f # fs)) @ lines_from [] rest"
    using Cons by simp
  finally show ?case .
qed

lemma lines_of_print_findings:
  "\<forall>f\<in>set fs. single_line_fields iq f \<Longrightarrow>
   lines_of (stdout_of (print_findings iq fs)) = concat (map (finding_lines iq) fs)"
  using lines_from_print_findings[of fs iq "[]"] by (simp add: lines_of_def)

lemma filter_info_type_lines:
  "filter (prefix ''Info type:'') (concat (map (finding_lines iq) fs)) =
     map (\<lambda>f. ''Info type: '' @ name (info_type f)) fs"
  by (induction fs) (simp_all add: finding_lines_def)

lemma filter_likelihood_lines:
  "filter (prefix ''Likelihood:'') (concat (map (finding_lines iq) fs)) =
     map (\<lambda>f. ''Likelihood: '' @ likelihood f @ '' '') fs"
  by (induction fs) (simp_all add: finding_lines_def)

lemma filter_quote_lines:
  "filter (prefix ''Quote:'') (concat (map (finding_lines iq) fs)) =
     (if truthy iq then map (\<lambda>f. ''Quote: '' @ quote f) fs else [])"
  by (induction fs) (simp_all add: finding_lines_def)

lemma filter_quote_printed:
  "truthy iq \<Longrightarrow> filter (prefix ''Quote:'') (printed (print_findings iq fs)) =
     map (\<lambda>f. ''Quote: '' @ quote f) fs"
  by (induction fs) (simp_all add: printed_append print_finding_def)

lemma filter_quote_printed_off:
  "\<not> truthy iq \<Longrightarrow> filter (prefix ''Quote:'') (printed (print_findings iq fs)) = []"
  by (induction fs) (simp_all add: printed_append print_finding_def)

lemma print_findings_quote_erased:
  "\<not> truthy iq \<Longrightarrow>
   print_findings iq (map (\<lambda>f. f\<lparr>quote := []\<rparr>) fs) = print_findings iq fs"
  by (induction fs) (simp_all add: print_finding_def)

lemma lines_of_present:
  assumes "findings (result response) \<noteq> []"
    and "\<forall>f\<in>set (findings (result response)). single_line_fields iq f"
  shows "lines_of (stdout_of (present iq response)) =
         concat (map (finding_lines iq) (findings (result response)))"
  using assms by (simp add: present_def lines_of_print_findings)

section \<open>The request\<close>

text \<open>
  C1. When the client has been constructed and the file reads as \<open>content\<close>, a call
  with a project string and a list of labels sends exactly one request, whatever the
  client answers: its parent is
  \<open>projects/\<close> followed by the project, its info types are the labels in their order,
  duplicates kept, each as an entry with that name, its \<open>include_quote\<close> is the
  argument, and its byte item is of type IMAGE with the content of the file as data.
\<close>

theorem request_shape:
  assumes "client_error world = None"
    and "read_file world filename = Some content"
  shows "calls_of (fst (inspect_image_file_listed_infotypes world (PStr project) filename
                          (Some labels) incl_quote)) =
         [\<lparr>parent = ''projects/'' @ project,
           inspect_config = \<lparr>info_types = map (\<lambda>s. \<lparr>name = s\<rparr>) labels,
                              include_quote = incl_quote\<rparr>,
           item = \<lparr>byte_item = \<lparr>type_ = ''IMAGE'', data = content\<rparr>\<rparr>\<rparr>]"
  using assms
  by (simp add: inspect_image_file_listed_infotypes_def Let_def calls_of_present
           split: sum.splits)

theorem request_shape_witness:
  "client_error (stub_world (Some [137, 80, 78, 71]) (Inl ''unavailable'')) = None
   \<and> read_file (stub_world (Some [137, 80, 78, 71]) (Inl ''unavailable'')) ''id.png''
     = Some [137, 80, 78, 71]
   \<and> calls_of (fst (inspect_image_file_listed_infotypes
         (stub_world (Some [137, 80, 78, 71]) (Inl ''unavailable'')) (PStr ''my-project'')
         ''id.png'' (Some [''PHONE_NUMBER'', ''EMAIL_ADDRESS'', ''PHONE_NUMBER'']) (PBool False))) =
       [\<lparr>parent = ''projects/my-project'',
         inspect_config =
           \<lparr>info_types = [\<lparr>name = ''PHONE_NUMBER''\<rparr>, \<lparr>name = ''EMAIL_ADDRESS''\<rparr>,
                           \<lparr>name = ''PHONE_NUMBER''\<rparr>],
            include_quote = PBool False\<rparr>,
         item = \<lparr>byte_item = \<lparr>type_ = ''IMAGE'', data = [137, 80, 78, 71]\<rparr>\<rparr>\<rparr>]"
proof -
  have made: "client_error (stub_world (Some [137, 80, 78, 71]) (Inl ''unavailable'')) = None"
    by (simp add: stub_world_def)
  have h: "read_file (stub_world (Some [137, 80, 78, 71]) (Inl ''unavailable'')) ''id.png''
             = Some [137, 80, 78, 71]"
    by (simp add: stub_world_def)
  show ?thesis
    using made h request_shape [OF made h, of "''my-project''"
        "[''PHONE_NUMBER'', ''EMAIL_ADDRESS'', ''PHONE_NUMBER'']" "PBool False"]
    by simp
qed

section \<open>The example run\<close>

text \<open>
  C2 as stated fails: for the one finding of the example the third line the program
  writes is \<open>Likelihood: LIKELY\<close> followed by a space, because the format string of
  line 79 has a space between the likelihood and its line feed. The text the claim
  gives, without that space, is not the output.
\<close>

theorem example_output_counterexample:
  "stdout_of (fst (inspect_image_file_listed_infotypes
      (stub_world (Some [137, 80, 78, 71])
         (answer_with [\<lparr>info_type = \<lparr>name = ''EMAIL_ADDRESS''\<rparr>, quote = ''a@b.com'',
                        likelihood = ''LIKELY''\<rparr>]))
      (PStr ''my-project'') ''id.png'' (Some [''EMAIL_ADDRESS'']) (PBool True)))
   \<noteq> ''Info type: EMAIL_ADDRESS\<newline>Quote: a@b.com\<newline>Likelihood: LIKELY\<newline>\<newline>''"
  by (simp add: inspect_image_file_listed_infotypes_def stub_world_def answer_with_def
        present_def print_finding_def stdout_of_def)

text \<open>
  C2, amended. With info types \<open>[EMAIL_ADDRESS]\<close>, quotes on, and a client whose
  response to the request sent holds exactly the finding \<open>EMAIL_ADDRESS\<close>,
  \<open>a@b.com\<close>, \<open>LIKELY\<close>, standard output is exactly
  \<open>Info type: EMAIL_ADDRESS\<close>, \<open>Quote: a@b.com\<close>, \<open>Likelihood: LIKELY\<close> with one
  space after it, and one empty line.
\<close>

theorem example_output:
  assumes "Call request \<in> set (fst (inspect_image_file_listed_infotypes world project
              filename (Some [''EMAIL_ADDRESS'']) (PBool True)))"
    and "inspect_content world request = Inr response"
    and "findings (result response) =
           [\<lparr>info_type = \<lparr>name = ''EMAIL_ADDRESS''\<rparr>, quote = ''a@b.com'',
             likelihood = ''LIKELY''\<rparr>]"
  shows "stdout_of (fst (inspect_image_file_listed_infotypes world project filename
            (Some [''EMAIL_ADDRESS'']) (PBool True))) =
         ''Info type: EMAIL_ADDRESS\<newline>Quote: a@b.com\<newline>Likelihood: LIKELY \<newline>\<newline>''"
  using run_with_call[OF assms(1)] assms(2,3)
  by (simp add: present_def print_finding_def stdout_of_def)

theorem example_output_witness:
  "stdout_of (fst (inspect_image_file_listed_infotypes
      (stub_world (Some [137, 80, 78, 71])
         (answer_with [\<lparr>info_type = \<lparr>name = ''EMAIL_ADDRESS''\<rparr>, quote = ''a@b.com'',
                        likelihood = ''LIKELY''\<rparr>]))
      (PStr ''my-project'') ''id.png'' (Some [''EMAIL_ADDRESS'']) (PBool True)))
   = ''Info type: EMAIL_ADDRESS\<newline>Quote: a@b.com\<newline>Likelihood: LIKELY \<newline>\<newline>''"
proof -
  let ?answer = "answer_with [\<lparr>info_type = \<lparr>name = ''EMAIL_ADDRESS''\<rparr>, quote = ''a@b.com'',
                        likelihood = ''LIKELY''\<rparr>]"
  let ?request = "\<lparr>parent = ''projects/my-project'',
         inspect_config = \<lparr>info_types = [\<lparr>name = ''EMAIL_ADDRESS''\<rparr>],
                            include_quote = PBool True\<rparr>,
         item = \<lparr>byte_item = \<lparr>type_ = ''IMAGE'', data = [137, 80, 78, 71]\<rparr>\<rparr>\<rparr>"
  let ?response = "\<lparr>result = \<lparr>findings =
        [\<lparr>info_type = \<lparr>name = ''EMAIL_ADDRESS''\<rparr>, quote = ''a@b.com'',
          likelihood = ''LIKELY''\<rparr>]\<rparr>\<rparr>"
  have sent: "Call ?request
       \<in> set (fst (inspect_image_file_listed_infotypes
             (stub_world (Some [137, 80, 78, 71]) ?answer)
             (PStr ''my-project'') ''id.png'' (Some [''EMAIL_ADDRESS'']) (PBool True)))"
    by (simp add: inspect_image_file_listed_infotypes_def stub_world_def answer_with_def)
  have answered: "inspect_content (stub_world (Some [137, 80, 78, 71]) ?answer) ?request
       = Inr ?response"
    by (simp add: stub_world_def answer_with_def)
  have one: "findings (result ?response) =
        [\<lparr>info_type = \<lparr>name = ''EMAIL_ADDRESS''\<rparr>, quote = ''a@b.com'',
          likelihood = ''LIKELY''\<rparr>]"
    by simp
  show ?thesis
    by (rule example_output [OF sent answered one])
qed

section \<open>What the presenter writes\<close>

text \<open>
  C3 as stated fails: the fields are printed as they are, so a quote that holds a line
  feed followed by \<open>Likelihood:\<close> puts a second line with that beginning into the
  output of a single finding.
\<close>

theorem lines_per_finding_counterexample:
  "length (findings (result \<lparr>result = \<lparr>findings =
       [\<lparr>info_type = \<lparr>name = ''PERSON_NAME''\<rparr>, quote = ''Ann\<newline>Likelihood: none'',
         likelihood = ''LIKELY''\<rparr>]\<rparr>\<rparr>)) = 1
   \<and> filter (prefix ''Likelihood:'') (lines_of (stdout_of (present (PBool True)
       \<lparr>result = \<lparr>findings =
         [\<lparr>info_type = \<lparr>name = ''PERSON_NAME''\<rparr>, quote = ''Ann\<newline>Likelihood: none'',
           likelihood = ''LIKELY''\<rparr>]\<rparr>\<rparr>)))
     = [''Likelihood: none'', ''Likelihood: LIKELY '']"
  by (simp add: present_def print_finding_def stdout_of_def lines_of_def)

text \<open>
  C3, amended. For a response with at least one finding, none of whose printed fields
  (the info type name, the likelihood text and, with quotes on, the quote) holds a
  line feed, the lines of the output are the line groups of the findings, one after
  the other in the order of the response; so the lines beginning \<open>Info type:\<close> are
  exactly one per finding, in that order, and so are the lines beginning
  \<open>Likelihood:\<close>.
\<close>

theorem lines_per_finding:
  assumes "findings (result response) \<noteq> []"
    and "\<forall>f\<in>set (findings (result response)). single_line_fields incl_quote f"
  shows "lines_of (stdout_of (present incl_quote response)) =
           concat (map (finding_lines incl_quote) (findings (result response)))
       \<and> filter (prefix ''Info type:'') (lines_of (stdout_of (present incl_quote response))) =
           map (\<lambda>f. ''Info type: '' @ name (info_type f)) (findings (result response))
       \<and> filter (prefix ''Likelihood:'') (lines_of (stdout_of (present incl_quote response))) =
           map (\<lambda>f. ''Likelihood: '' @ likelihood f @ '' '') (findings (result response))"
  by (simp only: lines_of_present[OF assms] filter_info_type_lines filter_likelihood_lines)

theorem lines_per_finding_witness:
  "filter (prefix ''Info type:'') (lines_of (stdout_of (present (PBool True)
       \<lparr>result = \<lparr>findings =
         [\<lparr>info_type = \<lparr>name = ''EMAIL_ADDRESS''\<rparr>, quote = ''a@b.com'',
           likelihood = ''LIKELY''\<rparr>,
          \<lparr>info_type = \<lparr>name = ''PHONE_NUMBER''\<rparr>, quote = ''555-0100'',
           likelihood = ''POSSIBLE''\<rparr>]\<rparr>\<rparr>)))
     = [''Info type: EMAIL_ADDRESS'', ''Info type: PHONE_NUMBER'']
   \<and> filter (prefix ''Likelihood:'') (lines_of (stdout_of (present (PBool True)
       \<lparr>result = \<lparr>findings =
         [\<lparr>info_type = \<lparr>name = ''EMAIL_ADDRESS''\<rparr>, quote = ''a@b.com'',
           likelihood = ''LIKELY''\<rparr>,
          \<lparr>info_type = \<lparr>name = ''PHONE_NUMBER''\<rparr>, quote = ''555-0100'',
           likelihood = ''POSSIBLE''\<rparr>]\<rparr>\<rparr>)))
     = [''Likelihood: LIKELY '', ''Likelihood: POSSIBLE '']"
proof -
  let ?response = "\<lparr>result = \<lparr>findings =
         [\<lparr>info_type = \<lparr>name = ''EMAIL_ADDRESS''\<rparr>, quote = ''a@b.com'',
           likelihood = ''LIKELY''\<rparr>,
          \<lparr>info_type = \<lparr>name = ''PHONE_NUMBER''\<rparr>, quote = ''555-0100'',
           likelihood = ''POSSIBLE''\<rparr>]\<rparr>\<rparr>"
  have some: "findings (result ?response) \<noteq> []"
    by simp
  have plain: "\<forall>f\<in>set (findings (result ?response)). single_line_fields (PBool True) f"
    by (simp add: single_line_fields_def no_line_feed_def)
  note shown = lines_per_finding [OF some plain]
  from shown have info:
    "filter (prefix ''Info type:'') (lines_of (stdout_of (present (PBool True) ?response))) =
       map (\<lambda>f. ''Info type: '' @ name (info_type f)) (findings (result ?response))"
    by blast
  from shown have lik:
    "filter (prefix ''Likelihood:'') (lines_of (stdout_of (present (PBool True) ?response))) =
       map (\<lambda>f. ''Likelihood: '' @ likelihood f @ '' '') (findings (result ?response))"
    by blast
  from info lik show ?thesis by simp
qed

text \<open>
  C4. When the response to the request sent has no findings, standard output is the
  line \<open>No findings.\<close> and nothing else.
\<close>

theorem no_findings_output:
  assumes "Call request \<in> set (fst (inspect_image_file_listed_infotypes world project
              filename infotypes incl_quote))"
    and "inspect_content world request = Inr response"
    and "findings (result response) = []"
  shows "stdout_of (fst (inspect_image_file_listed_infotypes world project filename
            infotypes incl_quote)) = ''No findings.\<newline>''"
  using run_with_call[OF assms(1)] assms(2,3)
  by (simp add: present_def stdout_of_def)

theorem no_findings_output_witness:
  "stdout_of (fst (inspect_image_file_listed_infotypes
      (stub_world (Some [137, 80, 78, 71]) (answer_with []))
      (PStr ''my-project'') ''id.png'' (Some [''EMAIL_ADDRESS'']) (PBool True)))
   = ''No findings.\<newline>''"
proof -
  have sent: "Call \<lparr>parent = ''projects/my-project'',
         inspect_config = \<lparr>info_types = [\<lparr>name = ''EMAIL_ADDRESS''\<rparr>],
                            include_quote = PBool True\<rparr>,
         item = \<lparr>byte_item = \<lparr>type_ = ''IMAGE'', data = [137, 80, 78, 71]\<rparr>\<rparr>\<rparr>
       \<in> set (fst (inspect_image_file_listed_infotypes
             (stub_world (Some [137, 80, 78, 71]) (answer_with []))
             (PStr ''my-project'') ''id.png'' (Some [''EMAIL_ADDRESS'']) (PBool True)))"
    by (simp add: inspect_image_file_listed_infotypes_def stub_world_def answer_with_def)
  have answered: "inspect_content (stub_world (Some [137, 80, 78, 71]) (answer_with []))
        \<lparr>parent = ''projects/my-project'',
         inspect_config = \<lparr>info_types = [\<lparr>name = ''EMAIL_ADDRESS''\<rparr>],
                            include_quote = PBool True\<rparr>,
         item = \<lparr>byte_item = \<lparr>type_ = ''IMAGE'', data = [137, 80, 78, 71]\<rparr>\<rparr>\<rparr>
       = Inr \<lparr>result = \<lparr>findings = []\<rparr>\<rparr>"
    by (simp add: stub_world_def answer_with_def)
  have none: "findings (result \<lparr>result = \<lparr>findings = []\<rparr>\<rparr>) = []"
    by simp
  show ?thesis
    by (rule no_findings_output [OF sent answered none])
qed

text \<open>
  C5 as stated fails: line 78 prints the quote of every finding when quotes are on and
  does not look at it, so a finding without a quote gets the line \<open>Quote: \<close> with
  nothing after it.
\<close>

theorem quote_line_counterexample:
  "''Quote: '' \<in> set (lines_of (stdout_of (present (PBool True)
       \<lparr>result = \<lparr>findings =
         [\<lparr>info_type = \<lparr>name = ''EMAIL_ADDRESS''\<rparr>, quote = [],
           likelihood = ''LIKELY''\<rparr>]\<rparr>\<rparr>)))"
  by (simp add: present_def print_finding_def stdout_of_def lines_of_def)

text \<open>
  C5, amended. With quotes on, the program prints one line \<open>Quote: <quote>\<close> for
  every finding, in the order of the findings, whether the finding carries a quote or
  not; when no printed field holds a line feed these are all the lines of the output
  that begin \<open>Quote:\<close>.
\<close>

theorem quote_line_for_every_finding:
  assumes "truthy incl_quote"
  shows "filter (prefix ''Quote:'') (printed (present incl_quote response)) =
           map (\<lambda>f. ''Quote: '' @ quote f) (findings (result response))
       \<and> ((\<forall>f\<in>set (findings (result response)). single_line_fields incl_quote f) \<longrightarrow>
            filter (prefix ''Quote:'') (lines_of (stdout_of (present incl_quote response))) =
              map (\<lambda>f. ''Quote: '' @ quote f) (findings (result response)))"
proof (cases "findings (result response) = []")
  case True
  then show ?thesis
    by (simp add: present_def stdout_of_def lines_of_def)
next
  case False
  then show ?thesis
    using assms
    by (simp add: lines_of_present filter_quote_lines) (simp add: present_def filter_quote_printed)
qed

theorem quote_line_for_every_finding_witness:
  "filter (prefix ''Quote:'') (printed (present (PStr ''yes'')
       \<lparr>result = \<lparr>findings =
         [\<lparr>info_type = \<lparr>name = ''EMAIL_ADDRESS''\<rparr>, quote = ''a@b.com'',
           likelihood = ''LIKELY''\<rparr>,
          \<lparr>info_type = \<lparr>name = ''PHONE_NUMBER''\<rparr>, quote = [],
           likelihood = ''POSSIBLE''\<rparr>]\<rparr>\<rparr>))
     = [''Quote: a@b.com'', ''Quote: '']
   \<and> filter (prefix ''Quote:'') (lines_of (stdout_of (present (PStr ''yes'')
       \<lparr>result = \<lparr>findings =
         [\<lparr>info_type = \<lparr>name = ''EMAIL_ADDRESS''\<rparr>, quote = ''a@b.com'',
           likelihood = ''LIKELY''\<rparr>,
          \<lparr>info_type = \<lparr>name = ''PHONE_NUMBER''\<rparr>, quote = [],
           likelihood = ''POSSIBLE''\<rparr>]\<rparr>\<rparr>)))
     = [''Quote: a@b.com'', ''Quote: '']"
proof -
  let ?response = "\<lparr>result = \<lparr>findings =
         [\<lparr>info_type = \<lparr>name = ''EMAIL_ADDRESS''\<rparr>, quote = ''a@b.com'',
           likelihood = ''LIKELY''\<rparr>,
          \<lparr>info_type = \<lparr>name = ''PHONE_NUMBER''\<rparr>, quote = [],
           likelihood = ''POSSIBLE''\<rparr>]\<rparr>\<rparr>"
  have on: "truthy (PStr ''yes'')"
    by simp
  have plain: "\<forall>f\<in>set (findings (result ?response)). single_line_fields (PStr ''yes'') f"
    by (simp add: single_line_fields_def no_line_feed_def)
  note shown = quote_line_for_every_finding [OF on, of ?response]
  from shown have prints:
    "filter (prefix ''Quote:'') (printed (present (PStr ''yes'') ?response)) =
       map (\<lambda>f. ''Quote: '' @ quote f) (findings (result ?response))"
    by blast
  from shown plain have in_text:
    "filter (prefix ''Quote:'') (lines_of (stdout_of (present (PStr ''yes'') ?response))) =
       map (\<lambda>f. ''Quote: '' @ quote f) (findings (result ?response))"
    by blast
  from prints in_text show ?thesis by simp
qed

text \<open>
  C6 as stated fails: with quotes off, an info type name that holds a line feed
  followed by \<open>Quote:\<close> still puts a line with that beginning into the output.
\<close>

theorem no_quote_line_counterexample:
  "''Quote: x'' \<in> set (lines_of (stdout_of (present (PBool False)
       \<lparr>result = \<lparr>findings =
         [\<lparr>info_type = \<lparr>name = ''A\<newline>Quote: x''\<rparr>, quote = [],
           likelihood = ''LIKELY''\<rparr>]\<rparr>\<rparr>)))"
  by (simp add: present_def print_finding_def stdout_of_def lines_of_def)

text \<open>
  C6, amended. With quotes off, the events of the presenter are those of the same
  response with every quote removed, so the output does not depend on the quotes; no
  \<^verbatim>\<open>print\<close> call writes a text beginning \<open>Quote:\<close>; and when no info type
  name and no likelihood text holds a line feed, no line of the output begins
  \<open>Quote:\<close>.
\<close>

theorem no_quote_line:
  assumes "\<not> truthy incl_quote"
  shows "present incl_quote response =
           present incl_quote
             \<lparr>result = \<lparr>findings = map (\<lambda>f. f\<lparr>quote := []\<rparr>) (findings (result response))\<rparr>\<rparr>
       \<and> filter (prefix ''Quote:'') (printed (present incl_quote response)) = []
       \<and> ((\<forall>f\<in>set (findings (result response)). single_line_fields incl_quote f) \<longrightarrow>
            filter (prefix ''Quote:'') (lines_of (stdout_of (present incl_quote response))) = [])"
proof (cases "findings (result response) = []")
  case True
  then show ?thesis
    by (simp add: present_def stdout_of_def lines_of_def)
next
  case False
  have a: "present incl_quote response =
           present incl_quote
             \<lparr>result = \<lparr>findings = map (\<lambda>f. f\<lparr>quote := []\<rparr>) (findings (result response))\<rparr>\<rparr>"
    using assms by (simp add: present_def print_findings_quote_erased)
  have b: "filter (prefix ''Quote:'') (printed (present incl_quote response)) = []"
    using assms False by (simp add: present_def filter_quote_printed_off)
  have c: "(\<forall>f\<in>set (findings (result response)). single_line_fields incl_quote f) \<longrightarrow>
            filter (prefix ''Quote:'') (lines_of (stdout_of (present incl_quote response))) = []"
    using assms False by (simp add: lines_of_present filter_quote_lines)
  from a b c show ?thesis by blast
qed

theorem no_quote_line_witness:
  "present (PBool False)
       \<lparr>result = \<lparr>findings =
         [\<lparr>info_type = \<lparr>name = ''EMAIL_ADDRESS''\<rparr>, quote = ''a@b.com'',
           likelihood = ''LIKELY''\<rparr>]\<rparr>\<rparr>
     = present (PBool False)
       \<lparr>result = \<lparr>findings =
         [\<lparr>info_type = \<lparr>name = ''EMAIL_ADDRESS''\<rparr>, quote = [],
           likelihood = ''LIKELY''\<rparr>]\<rparr>\<rparr>
   \<and> filter (prefix ''Quote:'') (printed (present (PBool False)
       \<lparr>result = \<lparr>findings =
         [\<lparr>info_type = \<lparr>name = ''EMAIL_ADDRESS''\<rparr>, quote = ''a@b.com'',
           likelihood = ''LIKELY''\<rparr>]\<rparr>\<rparr>)) = []
   \<and> filter (prefix ''Quote:'') (lines_of (stdout_of (present (PBool False)
       \<lparr>result = \<lparr>findings =
         [\<lparr>info_type = \<lparr>name = ''EMAIL_ADDRESS''\<rparr>, quote = ''a@b.com'',
           likelihood = ''LIKELY''\<rparr>]\<rparr>\<rparr>))) = []"
proof -
  let ?response = "\<lparr>result = \<lparr>findings =
         [\<lparr>info_type = \<lparr>name = ''EMAIL_ADDRESS''\<rparr>, quote = ''a@b.com'',
           likelihood = ''LIKELY''\<rparr>]\<rparr>\<rparr>"
  have off: "\<not> truthy (PBool False)"
    by simp
  have plain: "\<forall>f\<in>set (findings (result ?response)). single_line_fields (PBool False) f"
    by (simp add: single_line_fields_def no_line_feed_def)
  note shown = no_quote_line [OF off, of ?response]
  from shown have same: "present (PBool False) ?response =
      present (PBool False)
        \<lparr>result = \<lparr>findings = map (\<lambda>f. f\<lparr>quote := []\<rparr>) (findings (result ?response))\<rparr>\<rparr>"
    by blast
  from shown have prints:
    "filter (prefix ''Quote:'') (printed (present (PBool False) ?response)) = []"
    by blast
  from shown plain have in_text:
    "filter (prefix ''Quote:'') (lines_of (stdout_of (present (PBool False) ?response))) = []"
    by blast
  from same have "present (PBool False) ?response =
      present (PBool False)
       \<lparr>result = \<lparr>findings =
         [\<lparr>info_type = \<lparr>name = ''EMAIL_ADDRESS''\<rparr>, quote = [],
           likelihood = ''LIKELY''\<rparr>]\<rparr>\<rparr>"
    by simp
  with prints in_text show ?thesis by blast
qed

section \<open>Failures\<close>

text \<open>
  C7 as stated fails: the read of line 58 comes after the constructor of line 45 and the
  list comprehension of line 49. A command line that names a missing file and gives no
  \<^verbatim>\<open>--info_types\<close> ends with the \<^verbatim>\<open>TypeError\<close> of line 49, and a run
  whose client constructor raises ends with that error; neither reaches the file.
\<close>

theorem read_failure_counterexample:
  "read_file (stub_world None (answer_with [])) ''missing.png'' = None
   \<and> snd (main (stub_world None (answer_with []))
        \<lparr>opt_project = Some ''my-project'', positionals = [''missing.png''],
         opt_info_types = None, opt_include_quote = None\<rparr>) = Some TypeError
   \<and> snd (inspect_image_file_listed_infotypes
        ((stub_world None (answer_with []))\<lparr>client_error := Some ''no credentials''\<rparr>)
        (PStr ''my-project'') ''missing.png'' (Some [''EMAIL_ADDRESS'']) (PBool True))
      = Some (ClientError ''no credentials'')"
  by (simp add: main_def parse_args_def inspect_image_file_listed_infotypes_def
        stub_world_def)

text \<open>
  C7, amended. When the file cannot be opened or read, every call ends in an error with
  no request sent and nothing printed. The error is that of the read when the client
  was constructed and the info types are a list; it is the constructor's error when
  line 45 raises, and else the \<^verbatim>\<open>TypeError\<close> of line 49 when the info types
  are \<^verbatim>\<open>None\<close>.
\<close>

theorem read_failure_no_call:
  assumes "read_file world filename = None"
  shows "calls_of (fst (inspect_image_file_listed_infotypes world project filename
               infotypes incl_quote)) = []
       \<and> stdout_of (fst (inspect_image_file_listed_infotypes world project filename
               infotypes incl_quote)) = []
       \<and> snd (inspect_image_file_listed_infotypes world project filename infotypes
               incl_quote) =
           Some (case client_error world of
                   Some e \<Rightarrow> ClientError e
                 | None \<Rightarrow> (case infotypes of None \<Rightarrow> TypeError | Some labels \<Rightarrow> OSError))"
  using assms
  by (simp add: inspect_image_file_listed_infotypes_def stdout_of_def
           split: option.splits)

theorem read_failure_no_call_witness:
  "read_file (stub_world None (answer_with [])) ''missing.png'' = None
   \<and> calls_of (fst (inspect_image_file_listed_infotypes (stub_world None (answer_with []))
        (PStr ''my-project'') ''missing.png'' (Some [''EMAIL_ADDRESS'']) (PBool True))) = []
   \<and> stdout_of (fst (inspect_image_file_listed_infotypes (stub_world None (answer_with []))
        (PStr ''my-project'') ''missing.png'' (Some [''EMAIL_ADDRESS'']) (PBool True))) = []
   \<and> snd (inspect_image_file_listed_infotypes (stub_world None (answer_with []))
        (PStr ''my-project'') ''missing.png'' (Some [''EMAIL_ADDRESS'']) (PBool True))
      = Some OSError"
proof -
  have gone: "read_file (stub_world None (answer_with [])) ''missing.png'' = None"
    by (simp add: stub_world_def)
  have made: "client_error (stub_world None (answer_with [])) = None"
    by (simp add: stub_world_def)
  show ?thesis
    using gone made read_failure_no_call [OF gone, of "PStr ''my-project''"
        "Some [''EMAIL_ADDRESS'']" "PBool True"]
    by simp
qed

text \<open>
  C8. When the client raises on the request sent, the run ends with that error and has
  printed nothing: no finding line and no \<open>No findings.\<close> line.
\<close>

theorem remote_error_no_output:
  assumes "Call request \<in> set (fst (inspect_image_file_listed_infotypes world project
              filename infotypes incl_quote))"
    and "inspect_content world request = Inl e"
  shows "snd (inspect_image_file_listed_infotypes world project filename infotypes
               incl_quote) = Some (RemoteCallError e)
       \<and> printed (fst (inspect_image_file_listed_infotypes world project filename
               infotypes incl_quote)) = []
       \<and> stdout_of (fst (inspect_image_file_listed_infotypes world project filename
               infotypes incl_quote)) = []"
  using run_with_call[OF assms(1)] assms(2)
  by (simp add: stdout_of_def)

theorem remote_error_no_output_witness:
  "snd (inspect_image_file_listed_infotypes
        (stub_world (Some [137, 80, 78, 71]) (Inl ''unauthenticated''))
        (PStr ''my-project'') ''id.png'' (Some [''EMAIL_ADDRESS'']) (PBool True))
      = Some (RemoteCallError ''unauthenticated'')
   \<and> printed (fst (inspect_image_file_listed_infotypes
        (stub_world (Some [137, 80, 78, 71]) (Inl ''unauthenticated''))
        (PStr ''my-project'') ''id.png'' (Some [''EMAIL_ADDRESS'']) (PBool True))) = []
   \<and> stdout_of (fst (inspect_image_file_listed_infotypes
        (stub_world (Some [137, 80, 78, 71]) (Inl ''unauthenticated''))
        (PStr ''my-project'') ''id.png'' (Some [''EMAIL_ADDRESS'']) (PBool True))) = []"
proof -
  let ?request = "\<lparr>parent = ''projects/my-project'',
         inspect_config = \<lparr>info_types = [\<lparr>name = ''EMAIL_ADDRESS''\<rparr>],
                            include_quote = PBool True\<rparr>,
         item = \<lparr>byte_item = \<lparr>type_ = ''IMAGE'', data = [137, 80, 78, 71]\<rparr>\<rparr>\<rparr>"
  have sent: "Call ?request
       \<in> set (fst (inspect_image_file_listed_infotypes
             (stub_world (Some [137, 80, 78, 71]) (Inl ''unauthenticated''))
             (PStr ''my-project'') ''id.png'' (Some [''EMAIL_ADDRESS'']) (PBool True)))"
    by (simp add: inspect_image_file_listed_infotypes_def stub_world_def)
  have refused: "inspect_content (stub_world (Some [137, 80, 78, 71]) (Inl ''unauthenticated''))
        ?request = Inl ''unauthenticated''"
    by (simp add: stub_world_def)
  show ?thesis
    by (rule remote_error_no_output [OF sent refused])
qed

section \<open>The command line\<close>

text \<open>
  C9 as stated fails: only the positional \<^verbatim>\<open>filename\<close> is required. A command
  line without \<^verbatim>\<open>--project\<close> parses, the project is \<^verbatim>\<open>None\<close>, and the
  request goes out with the parent \<open>projects/None\<close>.
\<close>

theorem missing_project_counterexample:
  "snd (main (stub_world (Some [137, 80, 78, 71]) (answer_with []))
         \<lparr>opt_project = None, positionals = [''id.png''],
          opt_info_types = Some [''EMAIL_ADDRESS''], opt_include_quote = None\<rparr>) = None
   \<and> calls_of (fst (main (stub_world (Some [137, 80, 78, 71]) (answer_with []))
         \<lparr>opt_project = None, positionals = [''id.png''],
          opt_info_types = Some [''EMAIL_ADDRESS''], opt_include_quote = None\<rparr>)) =
       [\<lparr>parent = ''projects/None'',
         inspect_config = \<lparr>info_types = [\<lparr>name = ''EMAIL_ADDRESS''\<rparr>],
                            include_quote = PBool True\<rparr>,
         item = \<lparr>byte_item = \<lparr>type_ = ''IMAGE'', data = [137, 80, 78, 71]\<rparr>\<rparr>\<rparr>]"
  by (simp add: main_def parse_args_def inspect_image_file_listed_infotypes_def
        stub_world_def answer_with_def present_def)

text \<open>
  C9, amended. A command line without the filename fails in the parser with its usage
  error, before anything is opened, sent or printed.
\<close>

theorem missing_filename_usage_error:
  assumes "positionals cl = []"
  shows "parse_args cl = Inl UsageError \<and> main world cl = ([], Some UsageError)"
  using assms by (simp add: main_def parse_args_def)

theorem missing_filename_usage_error_witness:
  "positionals \<lparr>opt_project = Some ''my-project'', positionals = [],
       opt_info_types = Some [''EMAIL_ADDRESS''], opt_include_quote = None\<rparr> = []
   \<and> parse_args \<lparr>opt_project = Some ''my-project'', positionals = [],
       opt_info_types = Some [''EMAIL_ADDRESS''], opt_include_quote = None\<rparr> = Inl UsageError
   \<and> main (stub_world (Some [137, 80, 78, 71]) (answer_with []))
       \<lparr>opt_project = Some ''my-project'', positionals = [],
        opt_info_types = Some [''EMAIL_ADDRESS''], opt_include_quote = None\<rparr>
      = ([], Some UsageError)"
proof -
  have none: "positionals \<lparr>opt_project = Some ''my-project'', positionals = [],
       opt_info_types = Some [''EMAIL_ADDRESS''], opt_include_quote = None\<rparr> = []"
    by simp
  show ?thesis
    using none missing_filename_usage_error [OF none,
        of "stub_world (Some [137, 80, 78, 71]) (answer_with [])"]
    by simp
qed

text \<open>
  C10 as stated fails: a command line that gives neither \<^verbatim>\<open>--info_types\<close> nor
  the filename ends in the parser's usage error, and one that gives the filename ends
  with the constructor's error when line 45 raises.
\<close>

theorem missing_info_types_counterexample:
  "opt_info_types \<lparr>opt_project = Some ''my-project'', positionals = [],
       opt_info_types = None, opt_include_quote = None\<rparr> = None
   \<and> main (stub_world (Some [137, 80, 78, 71]) (answer_with []))
        \<lparr>opt_project = Some ''my-project'', positionals = [],
         opt_info_types = None, opt_include_quote = None\<rparr> = ([], Some UsageError)
   \<and> main ((stub_world (Some [137, 80, 78, 71]) (answer_with []))
              \<lparr>client_error := Some ''no credentials''\<rparr>)
        \<lparr>opt_project = Some ''my-project'', positionals = [''id.png''],
         opt_info_types = None, opt_include_quote = None\<rparr>
      = ([], Some (ClientError ''no credentials''))"
  by (simp add: main_def parse_args_def inspect_image_file_listed_infotypes_def
        stub_world_def)

text \<open>
  C10, amended. A command line that gives the filename and no \<^verbatim>\<open>--info_types\<close>
  parses, with \<^verbatim>\<open>args.info_types = None\<close>; the run then ends, with no file
  opened and no request sent, in an error that is not the parser's usage error: the
  \<^verbatim>\<open>TypeError\<close> of line 49 when the client was constructed, and the
  constructor's error when line 45 raises.
\<close>

theorem missing_info_types_type_error:
  assumes "opt_info_types cl = None" and "positionals cl = [fname]"
  shows "(\<exists>args. parse_args cl = Inr args \<and> arg_info_types args = None)
       \<and> snd (main world cl) =
           Some (case client_error world of Some e \<Rightarrow> ClientError e | None \<Rightarrow> TypeError)
       \<and> snd (main world cl) \<noteq> Some UsageError
       \<and> opened (fst (main world cl)) = []
       \<and> calls_of (fst (main world cl)) = []"
  using assms
  by (simp add: main_def parse_args_def inspect_image_file_listed_infotypes_def
           split: option.splits)

theorem missing_info_types_type_error_witness:
  "parse_args \<lparr>opt_project = Some ''my-project'', positionals = [''id.png''],
         opt_info_types = None, opt_include_quote = None\<rparr>
     = Inr \<lparr>arg_project = PStr ''my-project'', arg_filename = ''id.png'',
            arg_info_types = None, arg_include_quote = PBool True\<rparr>
   \<and> snd (main (stub_world (Some [137, 80, 78, 71]) (answer_with []))
        \<lparr>opt_project = Some ''my-project'', positionals = [''id.png''],
         opt_info_types = None, opt_include_quote = None\<rparr>) = Some TypeError
   \<and> opened (fst (main (stub_world (Some [137, 80, 78, 71]) (answer_with []))
        \<lparr>opt_project = Some ''my-project'', positionals = [''id.png''],
         opt_info_types = None, opt_include_quote = None\<rparr>)) = []
   \<and> calls_of (fst (main (stub_world (Some [137, 80, 78, 71]) (answer_with []))
        \<lparr>opt_project = Some ''my-project'', positionals = [''id.png''],
         opt_info_types = None, opt_include_quote = None\<rparr>)) = []"
proof -
  let ?cl = "\<lparr>opt_project = Some ''my-project'', positionals = [''id.png''],
         opt_info_types = None, opt_include_quote = None\<rparr>"
  have omitted: "opt_info_types ?cl = None"
    by simp
  have named: "positionals ?cl = [''id.png'']"
    by simp
  have made: "client_error (stub_world (Some [137, 80, 78, 71]) (answer_with [])) = None"
    by (simp add: stub_world_def)
  have parsed: "parse_args ?cl = Inr \<lparr>arg_project = PStr ''my-project'',
       arg_filename = ''id.png'', arg_info_types = None, arg_include_quote = PBool True\<rparr>"
    by (simp add: parse_args_def)
  show ?thesis
    using parsed made missing_info_types_type_error [OF omitted named,
        of "stub_world (Some [137, 80, 78, 71]) (answer_with [])"]
    by simp
qed

end
